theory Spec2Isabelle
  imports Main
begin

section \<open>The exit error of package exec\<close>

text \<open>
  \<^verbatim>\<open>type ExitError struct { Code int; Message string }\<close> (exec.go, lines 33 to 36).
  The exit code is a Go \<^verbatim>\<open>int\<close>; the package does no arithmetic on it, so no
  wrap-around is in play and it is an \<open>int\<close> here.
\<close>

record ExitError =
  Code :: int
  Message :: string

text \<open>
  \<open>Error\<close> has a pointer receiver, so Go lets it be called on a nil pointer, and reading
  \<^verbatim>\<open>e.Message\<close> through nil panics. The receiver is an optional \<open>ExitError\<close> and the
  panic is a value of the result.
\<close>

datatype panic = NilDereference

text \<open>
  \<^verbatim>\<open>func (e *ExitError) Error() string { return e.Message }\<close> (exec.go, lines 39 to 41).
\<close>

definition Error :: "ExitError option \<Rightarrow> panic + string" where
  "Error e = (case e of None \<Rightarrow> Inl NilDereference | Some x \<Rightarrow> Inr (Message x))"

section \<open>Properties of the exit error\<close>

text \<open>
  Claim C10. For every ExitError value \<open>e\<close>, \<open>Error\<close> returns exactly \<open>Message e\<close>. The
  \<open>Code\<close> field never influences the string: overwriting the code of \<open>e\<close> with any \<open>c\<close>
  leaves the result unchanged, and two exit errors with equal messages render
  identically, whatever their codes.
\<close>

theorem ExitError_Error_is_Message:
  "Error (Some e) = Inr (Message e)
   \<and> Error (Some (e\<lparr>Code := c\<rparr>)) = Error (Some e)
   \<and> (Message e1 = Message e2 \<longrightarrow> Error (Some e1) = Error (Some e2))"
  by (simp add: Error_def)

text \<open>
  The theorem at two exit errors with the message \<open>''exit''\<close> and the distinct codes 1 and
  255: their messages agree, their codes differ, and both render as \<open>''exit''\<close>.
\<close>

theorem ExitError_Error_is_Message_witness:
  "Message \<lparr>Code = 1, Message = ''exit''\<rparr> = Message \<lparr>Code = 255, Message = ''exit''\<rparr>
   \<and> Code \<lparr>Code = 1, Message = ''exit''\<rparr> \<noteq> Code \<lparr>Code = 255, Message = ''exit''\<rparr>
   \<and> Error (Some \<lparr>Code = 1, Message = ''exit''\<rparr>) = Inr ''exit''
   \<and> Error (Some \<lparr>Code = 1, Message = ''exit''\<rparr>) = Error (Some \<lparr>Code = 255, Message = ''exit''\<rparr>)"
proof -
  let ?a = "\<lparr>Code = 1, Message = ''exit''\<rparr>"
  let ?b = "\<lparr>Code = 255, Message = ''exit''\<rparr>"
  have same: "Message ?a = Message ?b" by simp
  have codes: "Code ?a \<noteq> Code ?b" by simp
  from ExitError_Error_is_Message [of ?a 0 ?a ?b]
  have shown: "Error (Some ?a) = Inr (Message ?a)"
    and indep: "Message ?a = Message ?b \<longrightarrow> Error (Some ?a) = Error (Some ?b)"
    by blast+
  from indep same have "Error (Some ?a) = Error (Some ?b)" by blast
  moreover from shown have "Error (Some ?a) = Inr ''exit''" by simp
  ultimately show ?thesis using same codes by blast
qed

end
